theory Spec2Isabelle
  imports Complex_Main "HOL-Library.Sublist"
begin

section \<open>Notification context (contexts/NotificationContext.tsx)\<close>

text \<open>
  The \<^verbatim>\<open>Notification\<close> interface of the client. \<^verbatim>\<open>id\<close> is a JavaScript number
  (an integer key of the backend), optional fields are options. Time stamps are kept as
  the strings the source stores.
\<close>

record notification =
  id_notif :: int
  title :: string
  message :: string
  notification_type :: string
  priority :: string
  is_read :: bool
  created_at :: string
  read_at :: "string option"
  related_entity_type :: "string option"
  related_entity_id :: "int option"

text \<open>
  The React state of \<^verbatim>\<open>NotificationProvider\<close>. \<^verbatim>\<open>unreadCount\<close> and \<^verbatim>\<open>totalCount\<close>
  are JavaScript numbers; they are integers here, so that a count below zero is a value
  the model can express.
\<close>

record notif_state =
  notifications :: "notification list"
  unreadCount :: int
  totalCount :: int
  isLoading :: bool
  error_text :: "string option"

text \<open>
  Every operation first awaits its REST call inside \<^verbatim>\<open>try\<close>; when the call rejects, the
  \<^verbatim>\<open>catch\<close> only logs and no state setter runs. The flag \<open>api_ok\<close> is the outcome of that
  call. \<^verbatim>\<open>new Date().toISOString()\<close> is evaluated inside the \<^verbatim>\<open>map\<close> callback, once per
  element it rewrites; \<open>clock i\<close> is the reading taken at list position \<open>i\<close>.

  The state setters are called with updater functions (\<^verbatim>\<open>prev => ...\<close>), which see the
  current state. \<^verbatim>\<open>deleteNotification\<close> also reads the variable \<^verbatim>\<open>notifications\<close>
  directly: that is the list of the render in which the handler was created, and after
  the \<^verbatim>\<open>await\<close> it may be older than the current state. It is the argument \<open>snapshot\<close>.
\<close>

definition mark_read_at :: "string \<Rightarrow> notification \<Rightarrow> notification" where
  "mark_read_at now notif = notif\<lparr>is_read := True, read_at := Some now\<rparr>"

definition markAsRead :: "bool \<Rightarrow> (nat \<Rightarrow> string) \<Rightarrow> int \<Rightarrow> notif_state \<Rightarrow> notif_state" where
  "markAsRead api_ok clock notificationId s =
     (if api_ok then
        s\<lparr>notifications :=
             map (\<lambda>(i, notif).
                    if id_notif notif = notificationId then mark_read_at (clock i) notif
                    else notif)
                 (enumerate 0 (notifications s)),
           unreadCount := max 0 (unreadCount s - 1)\<rparr>
      else s)"

definition markAllAsRead :: "bool \<Rightarrow> (nat \<Rightarrow> string) \<Rightarrow> notif_state \<Rightarrow> notif_state" where
  "markAllAsRead api_ok clock s =
     (if api_ok then
        s\<lparr>notifications :=
             map (\<lambda>(i, notif). mark_read_at (clock i) notif) (enumerate 0 (notifications s)),
           unreadCount := 0\<rparr>
      else s)"

definition deleteNotification ::
  "bool \<Rightarrow> notification list \<Rightarrow> int \<Rightarrow> notif_state \<Rightarrow> notif_state" where
  "deleteNotification api_ok snapshot notificationId s =
     (if api_ok then
        (let deletedNotification = find (\<lambda>n. id_notif n = notificationId) snapshot;
             unread' = (case deletedNotification of
                          None \<Rightarrow> unreadCount s
                        | Some d \<Rightarrow> if is_read d then unreadCount s
                                    else max 0 (unreadCount s - 1))
         in s\<lparr>notifications := filter (\<lambda>n. id_notif n \<noteq> notificationId) (notifications s),
               unreadCount := unread',
               totalCount := totalCount s - 1\<rparr>)
      else s)"

definition deleteAllNotifications :: "bool \<Rightarrow> notif_state \<Rightarrow> notif_state" where
  "deleteAllNotifications api_ok s =
     (if api_ok then s\<lparr>notifications := [], unreadCount := 0, totalCount := 0\<rparr> else s)"

text \<open>The four operations the context exposes for changing notifications, as events.\<close>

datatype notif_op =
    MarkAsRead bool "nat \<Rightarrow> string" int
  | MarkAllAsRead bool "nat \<Rightarrow> string"
  | DeleteNotification bool "notification list" int
  | DeleteAllNotifications bool

fun notif_step :: "notif_state \<Rightarrow> notif_op \<Rightarrow> notif_state" where
  "notif_step s (MarkAsRead ok clock i) = markAsRead ok clock i s"
| "notif_step s (MarkAllAsRead ok clock) = markAllAsRead ok clock s"
| "notif_step s (DeleteNotification ok snapshot i) = deleteNotification ok snapshot i s"
| "notif_step s (DeleteAllNotifications ok) = deleteAllNotifications ok s"

definition notif_run :: "notif_state \<Rightarrow> notif_op list \<Rightarrow> notif_state" where
  "notif_run s ops = foldl notif_step s ops"

text \<open>
  The relation between a notification before and after some operations when its read
  flag has not gone back: only \<^verbatim>\<open>is_read\<close> and \<^verbatim>\<open>read_at\<close> may differ, and it is
  read afterwards if it was read before.
\<close>

definition keeps_read :: "notification \<Rightarrow> notification \<Rightarrow> bool" where
  "keeps_read n n' =
     (n' = n\<lparr>is_read := is_read n', read_at := read_at n'\<rparr> \<and> (is_read n' \<or> \<not> is_read n))"

text \<open>Example data used by the concrete instances below.\<close>

definition notif_example :: "int \<Rightarrow> bool \<Rightarrow> notification" where
  "notif_example i r =
     \<lparr>id_notif = i, title = ''Enrolled'', message = ''You were enrolled'',
      notification_type = ''enrollment'', priority = ''medium'', is_read = r,
      created_at = ''2024-01-01T10:00:00.000Z'',
      read_at = (if r then Some ''2024-01-01T11:00:00.000Z'' else None),
      related_entity_type = None, related_entity_id = None\<rparr>"

definition state_example :: notif_state where
  "state_example =
     \<lparr>notifications = [notif_example 1 False, notif_example 2 True, notif_example 3 False],
      unreadCount = 2, totalCount = 3, isLoading = False, error_text = None\<rparr>"

text \<open>
  A state whose cached count is 0 while the list still holds an unread notification, as
  after \<^verbatim>\<open>refreshUnreadCount\<close> has fetched a count of 0 and the list has not been fetched
  again.
\<close>

definition state_count0 :: notif_state where
  "state_count0 =
     \<lparr>notifications = [notif_example 1 False, notif_example 2 True],
      unreadCount = 0, totalCount = 2, isLoading = False, error_text = None\<rparr>"

section \<open>Attendance capture (components/AttendanceCapture.tsx)\<close>

text \<open>
  The parts of \<^verbatim>\<open>User\<close> and \<^verbatim>\<open>Course\<close> (services/api.ts) that the capture screen reads.
  A \<^verbatim>\<open>Date\<close> is its number of milliseconds since the epoch; \<^verbatim>\<open>toISOString\<close> prints that
  number injectively, so the model keeps the number where the source keeps the string.
  Confidence scores are rational numbers.
\<close>

datatype role = Student | Instructor | Admin

record user =
  id_user :: int
  name_user :: string
  email :: string
  role_user :: role

record course =
  id_course :: int
  name_course :: string
  code :: string
  instructor_id :: int
  max_students :: int
  enrolled_students :: "user list"
  is_active :: bool

datatype attendance_status = Present | Absent | Late

text \<open>The body of the request \<^verbatim>\<open>attendanceAPI.markAttendance\<close> posts.\<close>

record attendance_data =
  user_id :: int
  course_id :: string
  course_name :: string
  course_code :: string
  instructor_id_att :: int
  session_start :: int
  session_end :: int
  status :: attendance_status
  confidence :: rat
  face_data :: string
  location :: string
  device_info :: string

datatype face_status = Recognized | Unknown | Processing

record detected_face =
  id_face :: string
  name_face :: string
  confidence_face :: rat
  timestamp :: int
  status_face :: face_status

record session_stats =
  totalDetected :: int
  recognized :: int
  unknown :: int
  presentStudents :: int

text \<open>
  The component's state, and next to it the list of requests it has posted to the
  attendance endpoint: that list is the effect of \<^verbatim>\<open>markAttendance\<close> outside the
  component.
\<close>

record capture_state =
  selectedCourse :: "course option"
  sessionStartTime :: "int option"
  detectedFaces :: "detected_face list"
  sessionStats :: session_stats
  posted :: "attendance_data list"

text \<open>
  What the component reads from its surroundings: the logged-in instructor, and from the
  JavaScript runtime the user agent, the time zone and the printing of numbers.
  \<open>localTZA_utc t\<close> is the offset of local time from UTC at the UTC time \<open>t\<close>
  (ECMA-262 \<^verbatim>\<open>LocalTZA(t, true)\<close>), \<open>localTZA_local t\<close> the offset the runtime applies to
  the local time \<open>t\<close> (\<^verbatim>\<open>LocalTZA(t, false)\<close>), both in milliseconds. \<open>toString\<close> is
  \<^verbatim>\<open>Number.prototype.toString\<close> on the integer ids.
\<close>

record capture_env =
  instructor :: int
  userAgent :: string
  localTZA_utc :: "int \<Rightarrow> int"
  localTZA_local :: "int \<Rightarrow> int"
  toString :: "int \<Rightarrow> string"

text \<open>
  The decimal digits of an integer: what \<^verbatim>\<open>Number.prototype.toString\<close> returns for an
  integer of magnitude below \<open>10 ^ 21\<close> (from there on it prints an exponent). The example
  environments below print ids with it.
\<close>

definition digit_char :: "nat \<Rightarrow> char" where
  "digit_char d = char_of (48 + d)"

function string_of_nat :: "nat \<Rightarrow> string" where
  "string_of_nat n =
     (if n < 10 then [digit_char n] else string_of_nat (n div 10) @ [digit_char (n mod 10)])"
  by pat_completeness auto
termination
  by (relation "measure (\<lambda>n. n)") auto

declare string_of_nat.simps [simp del]

definition decimal_string :: "int \<Rightarrow> string" where
  "decimal_string i =
     (if i < 0 then CHR ''-'' # string_of_nat (nat (- i)) else string_of_nat (nat i))"

text \<open>
  \<^verbatim>\<open>d.setMinutes(d.getMinutes() + 1)\<close> on a date with time value \<open>t\<close>, after ECMA-262:
  the time value is turned into local time, the minute field is raised by one (which in
  \<^verbatim>\<open>MakeTime\<close> and \<^verbatim>\<open>MakeDate\<close> adds 60000 ms to the local time, carrying into the hour and
  the day), and the local result is turned back into UTC with the offset the runtime
  applies to that local time. Where the offset changes, the result is not \<open>t + 60000\<close>.
  (\<^verbatim>\<open>TimeClip\<close> is left out: it only matters beyond the year 275760.)
\<close>

definition setMinutes_plus1 :: "capture_env \<Rightarrow> int \<Rightarrow> int" where
  "setMinutes_plus1 env t =
     (let local_t = t + localTZA_utc env t;
          local_end = local_t + 60000
      in local_end - localTZA_local env local_end)"

text \<open>
  \<^verbatim>\<open>markAttendance(userId, confidence)\<close>. \<open>now\<close> is the reading of \<^verbatim>\<open>new Date()\<close>.
  Whether the request succeeds changes nothing in the component (the \<^verbatim>\<open>catch\<close> only
  logs), so the request is recorded as posted in both cases.
\<close>

definition markAttendance :: "capture_env \<Rightarrow> int \<Rightarrow> int \<Rightarrow> rat \<Rightarrow> capture_state \<Rightarrow> capture_state" where
  "markAttendance env now userId conf s =
     (case selectedCourse s of
        None \<Rightarrow> s
      | Some c \<Rightarrow>
          (case sessionStartTime s of
             None \<Rightarrow> s
           | Some start \<Rightarrow>
               (let sessionEnd = setMinutes_plus1 env now;
                    attendanceData =
                      \<lparr>user_id = userId,
                       course_id = toString env (id_course c),
                       course_name = name_course c,
                       course_code = code c,
                       instructor_id_att = instructor env,
                       session_start = start,
                       session_end = sessionEnd,
                       status = Present,
                       confidence = conf,
                       face_data = [],
                       location = ''Classroom'',
                       device_info = userAgent env\<rparr>
                in s\<lparr>posted := posted s @ [attendanceData]\<rparr>)))"

text \<open>
  The answer of \<^verbatim>\<open>faceRecognitionAPI.verifyFace\<close>: the call rejects, or it returns
  \<^verbatim>\<open>{match, user?, confidence?}\<close>.
\<close>

record verify_response =
  match :: bool
  user_found :: "user option"
  confidence_found :: "rat option"

datatype verify_result = VerifyRejects | VerifyReturns verify_response

text \<open>
  One run of \<^verbatim>\<open>captureAndProcess\<close> sees: whether the video and canvas refs, the 2d
  context and the blob exist, the verifier's answer, and two clock readings (inside
  \<^verbatim>\<open>markAttendance\<close>, and for the face's time stamp).
\<close>

record capture_input =
  refs_present :: bool
  context_present :: bool
  blob_present :: bool
  verify :: verify_result
  clock_mark :: int
  clock_face :: int

text \<open>\<^verbatim>\<open>response.data.confidence || 0\<close>: a missing or zero score reads as 0.\<close>

definition confidence_or_0 :: "rat option \<Rightarrow> rat" where
  "confidence_or_0 c = (case c of None \<Rightarrow> 0 | Some x \<Rightarrow> if x = 0 then 0 else x)"

text \<open>
  \<^verbatim>\<open>selectedCourse?.enrolled_students.some(student => student.id === detectedUser.id)\<close>;
  without a selected course the expression is \<^verbatim>\<open>undefined\<close>, which the \<^verbatim>\<open>if\<close> takes as false.
\<close>

definition isEnrolled :: "course option \<Rightarrow> user \<Rightarrow> bool" where
  "isEnrolled sel detectedUser =
     (case sel of
        None \<Rightarrow> False
      | Some c \<Rightarrow> list_ex (\<lambda>student. id_user student = id_user detectedUser) (enrolled_students c))"

definition add_face :: "detected_face \<Rightarrow> bool \<Rightarrow> capture_state \<Rightarrow> capture_state" where
  "add_face newFace is_recognized s =
     s\<lparr>detectedFaces := detectedFaces s @ [newFace],
       sessionStats :=
         (if is_recognized then
            (sessionStats s)\<lparr>totalDetected := totalDetected (sessionStats s) + 1,
                             recognized := recognized (sessionStats s) + 1,
                             presentStudents := presentStudents (sessionStats s) + 1\<rparr>
          else
            (sessionStats s)\<lparr>totalDetected := totalDetected (sessionStats s) + 1,
                             unknown := unknown (sessionStats s) + 1\<rparr>)\<rparr>"

definition captureAndProcess :: "capture_env \<Rightarrow> capture_input \<Rightarrow> capture_state \<Rightarrow> capture_state" where
  "captureAndProcess env inp s =
     (if \<not> refs_present inp then s
      else if \<not> context_present inp then s
      else if \<not> blob_present inp then s
      else
        (case verify inp of
           VerifyRejects \<Rightarrow> s
         | VerifyReturns r \<Rightarrow>
             (case (if match r then user_found r else None) of
                Some detectedUser \<Rightarrow>
                  (if isEnrolled (selectedCourse s) detectedUser then
                     add_face
                       \<lparr>id_face = toString env (id_user detectedUser),
                        name_face = name_user detectedUser,
                        confidence_face = confidence_or_0 (confidence_found r),
                        timestamp = clock_face inp,
                        status_face = Recognized\<rparr>
                       True
                       (markAttendance env (clock_mark inp) (id_user detectedUser)
                          (confidence_or_0 (confidence_found r)) s)
                   else
                     add_face
                       \<lparr>id_face = ''unknown'',
                        name_face = ''Not enrolled in this course'',
                        confidence_face = confidence_or_0 (confidence_found r),
                        timestamp = clock_face inp,
                        status_face = Unknown\<rparr>
                       False s)
              | None \<Rightarrow>
                  add_face
                    \<lparr>id_face = ''unknown'',
                     name_face = ''Unknown Person'',
                     confidence_face = 0,
                     timestamp = clock_face inp,
                     status_face = Unknown\<rparr>
                    False s)))"

text \<open>
  A capture that reaches the verifier and comes back with a match for user \<open>u\<close>:
  the three early returns are not taken and \<^verbatim>\<open>response.data.match && response.data.user\<close>
  holds with \<open>u\<close> as the user.
\<close>

definition recognises :: "capture_input \<Rightarrow> verify_response \<Rightarrow> user \<Rightarrow> bool" where
  "recognises inp r u =
     (refs_present inp \<and> context_present inp \<and> blob_present inp \<and>
      verify inp = VerifyReturns r \<and> match r \<and> user_found r = Some u)"

text \<open>
  The key the specification deduplicates attendance on: student, course and session
  window, read off a posted request.
\<close>

definition dedup_key :: "attendance_data \<Rightarrow> int \<times> string \<times> int \<times> int" where
  "dedup_key a = (user_id a, course_id a, session_start a, session_end a)"

text \<open>
  The status rule in the specification's words (section 4.2, step 3), for comparison
  with the status the client posts: \<open>Late\<close> for a capture after the grace offset past
  the session start and before the session end, \<open>Present\<close> for a capture inside the
  window with a confidence of at least the threshold; the rule names no other status.
\<close>

definition spec_status :: "rat \<Rightarrow> int \<Rightarrow> int \<Rightarrow> int \<Rightarrow> int \<Rightarrow> rat \<Rightarrow> attendance_status option" where
  "spec_status threshold grace start_t end_t capture conf =
     (if start_t + grace < capture \<and> capture < end_t then Some Late
      else if threshold \<le> conf \<and> start_t \<le> capture \<and> capture < end_t then Some Present
      else None)"

text \<open>Example data: a course with two enrolled students, and an outsider.\<close>

definition alice :: user where
  "alice = \<lparr>id_user = 7, name_user = ''Alice'', email = ''alice@example.org'', role_user = Student\<rparr>"

definition bob :: user where
  "bob = \<lparr>id_user = 8, name_user = ''Bob'', email = ''bob@example.org'', role_user = Student\<rparr>"

definition mallory :: user where
  "mallory = \<lparr>id_user = 9, name_user = ''Mallory'', email = ''mallory@example.org'',
              role_user = Student\<rparr>"

definition c101 :: course where
  "c101 = \<lparr>id_course = 101, name_course = ''Algorithms'', code = ''C101'', instructor_id = 1,
           max_students = 2, enrolled_students = [alice, bob], is_active = True\<rparr>"

text \<open>A browser whose time zone is UTC.\<close>

definition env_example :: capture_env where
  "env_example =
     \<lparr>instructor = 1, userAgent = ''Mozilla/5.0'',
      localTZA_utc = (\<lambda>t. 0), localTZA_local = (\<lambda>t. 0), toString = decimal_string\<rparr>"

text \<open>
  A browser in the zone America/New\_York around 3 November 2024, when daylight saving
  time ended at 06:00 UTC (time value 1730613600000): four hours behind UTC before,
  five hours after. The local times from 01:00 to 02:00 of that night occur twice;
  ECMA-262 reads them with the offset before the change, so local times before 02:00
  (1730599200000 as a local time value) get four hours and later ones five.
\<close>

definition env_new_york :: capture_env where
  "env_new_york =
     \<lparr>instructor = 1, userAgent = ''Mozilla/5.0'',
      localTZA_utc = (\<lambda>t. if t < 1730613600000 then - 14400000 else - 18000000),
      localTZA_local = (\<lambda>t. if t < 1730599200000 then - 14400000 else - 18000000),
      toString = decimal_string\<rparr>"

definition stats0 :: session_stats where
  "stats0 = \<lparr>totalDetected = 0, recognized = 0, unknown = 0, presentStudents = 0\<rparr>"

definition capture_example :: capture_state where
  "capture_example =
     \<lparr>selectedCourse = Some c101, sessionStartTime = Some 0, detectedFaces = [],
      sessionStats = stats0, posted = []\<rparr>"

definition capture_of :: "user \<Rightarrow> rat \<Rightarrow> int \<Rightarrow> capture_input" where
  "capture_of u conf t =
     \<lparr>refs_present = True, context_present = True, blob_present = True,
      verify = VerifyReturns \<lparr>match = True, user_found = Some u, confidence_found = Some conf\<rparr>,
      clock_mark = t, clock_face = t\<rparr>"

section \<open>Enrollment controls of the client\<close>

text \<open>
  A button as the JSX describes it: its caption, its \<^verbatim>\<open>disabled\<close> attribute and the
  handler behind \<^verbatim>\<open>onClick\<close>.
\<close>

datatype click_action = ShowEnrollForm | HandleEnroll int | HandleUnenroll int

record button =
  caption :: string
  disabled :: bool
  onClick :: click_action

text \<open>
  StudentEnrollment.tsx, the admin's ``Enroll Student'' button of the selected course:
  \<^verbatim>\<open>disabled={selectedCourse.enrolled_students.length >= selectedCourse.max_students}\<close>.
\<close>

definition adminEnrollButton :: "course \<Rightarrow> button" where
  "adminEnrollButton c =
     \<lparr>caption = ''Enroll Student'',
      disabled = (max_students c \<le> int (length (enrolled_students c))),
      onClick = ShowEnrollForm\<rparr>"

text \<open>
  The \<^verbatim>\<open>DashboardCourse\<close> rows of StudentDashboard.tsx, as the backend sends them:
  every field is data of the response, none is computed in the client.
\<close>

record dashboard_course =
  id_dc :: int
  name_dc :: string
  code_dc :: string
  instructor_name :: string
  is_active_dc :: bool
  max_students_dc :: int
  enrolled_count_dc :: int
  available_spots :: int
  is_enrolled_dc :: bool
  can_enroll :: bool

definition studentCourseButton :: "dashboard_course \<Rightarrow> button" where
  "studentCourseButton c =
     (if is_enrolled_dc c then
        \<lparr>caption = ''Unenroll'', disabled = False, onClick = HandleUnenroll (id_dc c)\<rparr>
      else
        \<lparr>caption = (if can_enroll c then ''Enroll'' else ''Full''),
         disabled = (\<not> can_enroll c),
         onClick = HandleEnroll (id_dc c)\<rparr>)"

text \<open>The statistics the student dashboard receives, and the rate it prints.\<close>

record attendance_stats =
  total_sessions :: int
  present_count :: int
  absent_count :: int
  late_count :: int
  attendance_rate :: rat

text \<open>
  \<^verbatim>\<open>attendanceStats ? `${attendanceStats.attendance_rate.toFixed(1)}%` : '0%'\<close>. The
  formatting of \<^verbatim>\<open>Number.prototype.toFixed\<close> is the parameter \<open>toFixed1\<close>.
\<close>

definition attendanceRateText :: "(rat \<Rightarrow> string) \<Rightarrow> attendance_stats option \<Rightarrow> string" where
  "attendanceRateText toFixed1 attendanceStats =
     (case attendanceStats of
        None \<Rightarrow> ''0%''
      | Some st \<Rightarrow> toFixed1 (attendance_rate st) @ ''%'')"

section \<open>Enrollment ledger and attendance rate of the backend\<close>

text \<open>
  Modelled from the spec: the error taxonomy (section 7) and the data of the Enrollment
  Ledger (sections 3 and 4.1). The backend that holds them is not among the source
  files; the client reaches it over REST only.
\<close>

datatype domain_error =
    CapacityExceeded | AlreadyEnrolled | NotEnrolled | CourseInactive
  | DuplicateSession | VerifierUnavailable | NotFound

record course_row =
  row_max_students :: int
  row_is_active :: bool

record enrollment =
  enr_student :: int
  enr_course :: int
  enr_active :: bool

text \<open>
  Modelled from the spec: the ledger state, which the absent backend keeps in its
  database: the courses by id, the enrollment rows in insertion order (an unenrolled
  row stays, inactive), and the notifications emitted so far (recipient and text).
\<close>

record ledger =
  courses :: "(int \<times> course_row) list"
  enrollments :: "enrollment list"
  emitted :: "(int \<times> string) list"

definition enrolled_count :: "ledger \<Rightarrow> int \<Rightarrow> nat" where
  "enrolled_count L cid =
     length (filter (\<lambda>e. enr_course e = cid \<and> enr_active e) (enrollments L))"

definition active_pair :: "int \<Rightarrow> int \<Rightarrow> enrollment \<Rightarrow> bool" where
  "active_pair sid cid e = (enr_student e = sid \<and> enr_course e = cid \<and> enr_active e)"

text \<open>
  Modelled from the spec: \<^verbatim>\<open>enroll(student_id, course_id)\<close> of the Enrollment Ledger
  (section 4.1). The backend that implements it is not among the source files; the
  client only calls it over REST. The checks are made in the order the specification
  lists them; a course id the ledger does not know is \<open>NotFound\<close>.
\<close>

definition enroll :: "int \<Rightarrow> int \<Rightarrow> ledger \<Rightarrow> domain_error + ledger" where
  "enroll sid cid L =
     (case map_of (courses L) cid of
        None \<Rightarrow> Inl NotFound
      | Some c \<Rightarrow>
          if row_max_students c \<le> int (enrolled_count L cid) then Inl CapacityExceeded
          else if list_ex (active_pair sid cid) (enrollments L) then Inl AlreadyEnrolled
          else if \<not> row_is_active c then Inl CourseInactive
          else Inr (L\<lparr>enrollments :=
                         enrollments L @ [\<lparr>enr_student = sid, enr_course = cid, enr_active = True\<rparr>],
                       emitted := emitted L @ [(sid, ''enrolled'')]\<rparr>))"

text \<open>
  Modelled from the spec: \<^verbatim>\<open>unenroll(student_id, course_id)\<close> of the Enrollment Ledger
  (section 4.1), absent from the source files like \<open>enroll\<close>: a soft delete that marks
  the active row inactive.
\<close>

definition unenroll :: "int \<Rightarrow> int \<Rightarrow> ledger \<Rightarrow> domain_error + ledger" where
  "unenroll sid cid L =
     (if list_ex (active_pair sid cid) (enrollments L) then
        Inr (L\<lparr>enrollments :=
                 map (\<lambda>e. if active_pair sid cid e then e\<lparr>enr_active := False\<rparr> else e)
                     (enrollments L),
               emitted := emitted L @ [(sid, ''unenrolled'')]\<rparr>)
      else Inl NotEnrolled)"

datatype ledger_action = Enroll int int | Unenroll int int

text \<open>A failed call leaves the ledger as it was.\<close>

fun ledger_step :: "ledger \<Rightarrow> ledger_action \<Rightarrow> ledger" where
  "ledger_step L (Enroll sid cid) = (case enroll sid cid L of Inl _ \<Rightarrow> L | Inr L' \<Rightarrow> L')"
| "ledger_step L (Unenroll sid cid) = (case unenroll sid cid L of Inl _ \<Rightarrow> L | Inr L' \<Rightarrow> L')"

definition ledger_run :: "ledger \<Rightarrow> ledger_action list \<Rightarrow> ledger" where
  "ledger_run L acts = foldl ledger_step L acts"

text \<open>
  Modelled from the spec: the capacity invariant of the data model (section 3), on the
  ledger above: no course holds more active enrollments than its capacity.
\<close>

definition within_capacity :: "ledger \<Rightarrow> int \<Rightarrow> bool" where
  "within_capacity L cid =
     (case map_of (courses L) cid of
        None \<Rightarrow> True
      | Some c \<Rightarrow> int (enrolled_count L cid) \<le> row_max_students c)"

definition capacity_ok :: "ledger \<Rightarrow> bool" where
  "capacity_ok L = list_all (within_capacity L) (map fst (courses L))"

text \<open>
  Modelled from the spec: \<^verbatim>\<open>attendanceRate\<close> of the Dashboard Aggregator (section 4.4),
  computed by the backend, which is not among the source files. It is given the two
  counts of the student. Division is checked, so that dividing by zero is an error value
  of the model and not the 0 that HOL's division returns.
\<close>

datatype arith_error = DivisionByZero

definition divide_checked :: "rat \<Rightarrow> rat \<Rightarrow> arith_error + rat" where
  "divide_checked a b = (if b = 0 then Inl DivisionByZero else Inr (a / b))"

definition attendanceRate :: "nat \<Rightarrow> nat \<Rightarrow> arith_error + rat" where
  "attendanceRate n_present n_sessions =
     (if n_sessions = 0 then Inr 0 else divide_checked (of_nat n_present) (of_nat n_sessions))"

definition ledger_example :: ledger where
  "ledger_example =
     \<lparr>courses = [(101, \<lparr>row_max_students = 2, row_is_active = True\<rparr>)],
      enrollments = [], emitted = []\<rparr>"

definition ledger_full :: ledger where
  "ledger_full = ledger_run ledger_example [Enroll 1 101, Enroll 2 101]"

definition dashboard_example :: dashboard_course where
  "dashboard_example =
     \<lparr>id_dc = 101, name_dc = ''Algorithms'', code_dc = ''C101'', instructor_name = ''Dr. Hopper'',
      is_active_dc = False, max_students_dc = 10, enrolled_count_dc = 0, available_spots = 10,
      is_enrolled_dc = False, can_enroll = False\<rparr>"

section \<open>Session restore (App.tsx)\<close>

text \<open>
  The values \<^verbatim>\<open>JSON.parse\<close> can return. \<^verbatim>\<open>JSON.parse\<close> itself belongs to the
  JavaScript runtime: it is the parameter \<open>parse\<close> below, \<open>None\<close> where it throws a
  \<^verbatim>\<open>SyntaxError\<close>.
\<close>

datatype json =
    JNull | JBool bool | JNum rat | JStr string | JArr "json list" | JObj "(string \<times> json) list"

datatype js_error = SyntaxError | TypeError

record app_state =
  user_state :: json
  localStorage :: "string \<rightharpoonup> string"

datatype view = AuthPage | MainLayout

text \<open>JavaScript truthiness, as \<^verbatim>\<open>if (!user)\<close> applies it.\<close>

fun truthy :: "json \<Rightarrow> bool" where
  "truthy JNull = False"
| "truthy (JBool b) = b"
| "truthy (JNum n) = (n \<noteq> 0)"
| "truthy (JStr s) = (s \<noteq> [])"
| "truthy (JArr _) = True"
| "truthy (JObj _) = True"

text \<open>
  The effect that runs once after the first render. \<^verbatim>\<open>if (storedUser)\<close> skips a
  missing and an empty entry. The \<^verbatim>\<open>try\<close> encloses the only call that can throw.
\<close>

definition restoreSession :: "(string \<Rightarrow> json option) \<Rightarrow> app_state \<Rightarrow> js_error + app_state" where
  "restoreSession parse a =
     (case localStorage a ''smartfacetrack_user'' of
        None \<Rightarrow> Inr a
      | Some storedUser \<Rightarrow>
          if storedUser = [] then Inr a
          else
            (case parse storedUser of
               Some v \<Rightarrow> Inr (a\<lparr>user_state := v\<rparr>)
             | None \<Rightarrow> Inr (a\<lparr>localStorage := (localStorage a)(''smartfacetrack_user'' := None)\<rparr>)))"

text \<open>
  \<^verbatim>\<open>user.name\<close> on a value that is not \<^verbatim>\<open>null\<close>: the property of an object, and
  \<^verbatim>\<open>undefined\<close> (here \<open>None\<close>) on every other value.
\<close>

fun name_of :: "json \<Rightarrow> json option" where
  "name_of (JObj kvs) = map_of kvs ''name''"
| "name_of _ = None"

text \<open>
  What the body of \<^verbatim>\<open>App\<close> evaluates for a given \<^verbatim>\<open>user\<close>: the auth page for a falsy
  value; otherwise the layout, whose JSX computes \<^verbatim>\<open>user.name.charAt(0).toUpperCase()\<close>,
  a \<^verbatim>\<open>TypeError\<close> unless \<^verbatim>\<open>user.name\<close> is a string.
\<close>

definition App_render :: "json \<Rightarrow> js_error + view" where
  "App_render u =
     (if \<not> truthy u then Inr AuthPage
      else (case name_of u of
              Some (JStr _) \<Rightarrow> Inr MainLayout
            | _ \<Rightarrow> Inl TypeError))"

text \<open>Application start: the restore effect, then the render with the state it left.\<close>

definition App_start :: "(string \<Rightarrow> json option) \<Rightarrow> app_state \<Rightarrow> js_error + (view \<times> app_state)" where
  "App_start parse a =
     (case restoreSession parse a of
        Inl e \<Rightarrow> Inl e
      | Inr a' \<Rightarrow> (case App_render (user_state a') of
                     Inl e \<Rightarrow> Inl e
                   | Inr v \<Rightarrow> Inr (v, a')))"

text \<open>
  For the concrete instances: a parser that agrees with \<^verbatim>\<open>JSON.parse\<close> on the three
  strings used there, \<^verbatim>\<open>{}\<close>, \<^verbatim>\<open>{"name":"Ann"}\<close> and \<^verbatim>\<open>not json\<close>.
\<close>

definition parse_example :: "string \<Rightarrow> json option" where
  "parse_example s =
     (if s = ''{}'' then Some (JObj [])
      else if s = ''{\"name\":\"Ann\"}'' then Some (JObj [(''name'', JStr ''Ann'')])
      else None)"

definition app_with :: "string \<Rightarrow> app_state" where
  "app_with stored = \<lparr>user_state = JNull, localStorage = [''smartfacetrack_user'' \<mapsto> stored]\<rparr>"

section \<open>Notifications: proofs\<close>

lemma keeps_read_refl: "keeps_read n n"
  by (simp add: keeps_read_def)

lemma keeps_read_trans: "keeps_read a b \<Longrightarrow> keeps_read b c \<Longrightarrow> keeps_read a c"
  unfolding keeps_read_def
  by (cases a, cases b, cases c) auto

lemma keeps_read_mark: "keeps_read n (mark_read_at t n)"
  by (simp add: keeps_read_def mark_read_at_def)

lemma list_all2_map_enumerate:
  "(\<And>j n. R n (g j n)) \<Longrightarrow> list_all2 R xs (map (\<lambda>(j, n). g j n) (enumerate k xs))"
  by (induction xs arbitrary: k) simp_all

text \<open>
  A subsequence of the right-hand list of an elementwise relation is related to a
  subsequence of the left-hand list.
\<close>

lemma list_all2_subseq_pull:
  "subseq ys' ys \<Longrightarrow> list_all2 R xs ys \<Longrightarrow> \<exists>xs'. subseq xs' xs \<and> list_all2 R xs' ys'"
proof (induction arbitrary: xs rule: list_emb.induct)
  case (list_emb_Nil ys)
  then show ?case by (intro exI [of _ "[]"]) simp
next
  case (list_emb_Cons ys' ys y)
  from list_emb_Cons.prems obtain x xs0 where xs: "xs = x # xs0" and r: "list_all2 R xs0 ys"
    by (auto simp: list_all2_Cons2)
  from list_emb_Cons.IH [OF r] obtain xs' where "subseq xs' xs0" "list_all2 R xs' ys'"
    by blast
  with xs show ?case by auto
next
  case (list_emb_Cons2 y' y ys' ys)
  from list_emb_Cons2.prems obtain x xs0 where xs: "xs = x # xs0" and rx: "R x y"
    and r: "list_all2 R xs0 ys"
    by (auto simp: list_all2_Cons2)
  from list_emb_Cons2.IH [OF r] obtain xs' where "subseq xs' xs0" "list_all2 R xs' ys'"
    by blast
  with xs rx list_emb_Cons2.hyps(1) have "subseq (x # xs') xs \<and> list_all2 R (x # xs') (y' # ys')"
    by simp
  then show ?case by blast
qed

text \<open>
  One operation: the two marking operations rewrite the list element by element, the
  two deleting operations drop elements and leave the others as they are.
\<close>

lemma notif_step_kept:
  "\<exists>kept. subseq kept (notifications s) \<and>
          list_all2 keeps_read kept (notifications (notif_step s op))"
proof (cases op)
  case (MarkAsRead ok clock i)
  have "list_all2 keeps_read (notifications s) (notifications (markAsRead ok clock i s))"
  proof (cases ok)
    case True
    then show ?thesis
      unfolding markAsRead_def
      using list_all2_map_enumerate
        [where R = keeps_read
           and g = "\<lambda>j notif. if id_notif notif = i then mark_read_at (clock j) notif else notif"]
      by (simp add: keeps_read_mark keeps_read_refl)
  next
    case False
    then show ?thesis by (simp add: markAsRead_def list_all2_same keeps_read_refl)
  qed
  with MarkAsRead show ?thesis
    by (intro exI [of _ "notifications s"]) simp
next
  case (MarkAllAsRead ok clock)
  have "list_all2 keeps_read (notifications s) (notifications (markAllAsRead ok clock s))"
  proof (cases ok)
    case True
    then show ?thesis
      unfolding markAllAsRead_def
      using list_all2_map_enumerate
        [where R = keeps_read and g = "\<lambda>j notif. mark_read_at (clock j) notif"]
      by (simp add: keeps_read_mark)
  next
    case False
    then show ?thesis by (simp add: markAllAsRead_def list_all2_same keeps_read_refl)
  qed
  with MarkAllAsRead show ?thesis
    by (intro exI [of _ "notifications s"]) simp
next
  case (DeleteNotification ok snapshot i)
  then show ?thesis
    by (intro exI [of _ "notifications (deleteNotification ok snapshot i s)"])
       (simp add: deleteNotification_def Let_def list_all2_same keeps_read_refl)
next
  case (DeleteAllNotifications ok)
  then show ?thesis
    by (intro exI [of _ "notifications (deleteAllNotifications ok s)"])
       (simp add: deleteAllNotifications_def list_all2_same keeps_read_refl)
qed

lemma notif_step_unread_nonneg: "0 \<le> unreadCount s \<Longrightarrow> 0 \<le> unreadCount (notif_step s op)"
  by (cases op)
     (simp_all add: markAsRead_def markAllAsRead_def deleteNotification_def
        deleteAllNotifications_def Let_def split: option.splits)

text \<open>
  Claim C5, as stated, fails at a cached count of 0. Deleting the unread notification 1
  from a list rendered up to date leaves the count at 0: the decrement is clamped, so
  the count is not decremented although the deleted notification was unread.
\<close>

theorem delete_unread_counterexample:
  "find (\<lambda>n. id_notif n = 1) (notifications state_count0) = Some (notif_example 1 False) \<and>
   \<not> is_read (notif_example 1 False) \<and>
   unreadCount state_count0 = 0 \<and>
   notifications (deleteNotification True (notifications state_count0) 1 state_count0) =
     [notif_example 2 True] \<and>
   unreadCount (deleteNotification True (notifications state_count0) 1 state_count0) = 0"
  by (simp add: deleteNotification_def state_count0_def notif_example_def)

text \<open>
  Claim C5, amended. Take any notification list and any cached unread count, and a
  successful \<^verbatim>\<open>deleteNotification\<close> whose render-time list shows the notification to
  delete as the current list does. Every entry with that id is removed, read or unread,
  and the other entries stay. The cached count goes down by one exactly when the
  deleted notification (the entry \<^verbatim>\<open>find\<close> returns) was unread and the count was
  positive; an unread notification deleted at a count of 0 or less sets the count to 0;
  a read notification, or an id that is not in the list, leaves the count unchanged.
\<close>

theorem deleteNotification_unread:
  assumes "find (\<lambda>n. id_notif n = i) snapshot = find (\<lambda>n. id_notif n = i) (notifications s)"
    and "deleteNotification True snapshot i s = s'"
  shows "notifications s' = filter (\<lambda>n. id_notif n \<noteq> i) (notifications s) \<and>
     (unreadCount s' = unreadCount s - 1) =
       (0 < unreadCount s \<and>
        (\<exists>d. find (\<lambda>n. id_notif n = i) (notifications s) = Some d \<and> \<not> is_read d)) \<and>
     ((\<exists>d. find (\<lambda>n. id_notif n = i) (notifications s) = Some d \<and> \<not> is_read d) \<and>
      unreadCount s \<le> 0 \<longrightarrow> unreadCount s' = 0) \<and>
     ((\<forall>d. find (\<lambda>n. id_notif n = i) (notifications s) = Some d \<longrightarrow> is_read d) \<longrightarrow>
      unreadCount s' = unreadCount s)"
  using assms by (auto simp: deleteNotification_def Let_def split: option.splits if_splits)

text \<open>
  Deleting the unread notification 1 takes the count from 2 to 1; deleting the read
  notification 2 leaves it at 2.
\<close>

theorem deleteNotification_unread_witness:
  "notifications (deleteNotification True (notifications state_example) 1 state_example) =
     [notif_example 2 True, notif_example 3 False] \<and>
   unreadCount (deleteNotification True (notifications state_example) 1 state_example) = 1 \<and>
   notifications (deleteNotification True (notifications state_example) 2 state_example) =
     [notif_example 1 False, notif_example 3 False] \<and>
   unreadCount (deleteNotification True (notifications state_example) 2 state_example) = 2"
  using deleteNotification_unread [OF refl refl, where i = 1 and s = state_example]
    deleteNotification_unread [OF refl refl, where i = 2 and s = state_example]
  by (simp add: state_example_def notif_example_def)

text \<open>
  Outside that condition: \<^verbatim>\<open>markAsRead(1)\<close> and then \<^verbatim>\<open>deleteNotification(1)\<close>, both
  started from the render of the initial list. The delete still sees notification 1 as
  unread in its render-time list and decrements a second time, although the
  notification is read when it is deleted.
\<close>

lemma deleteNotification_stale_snapshot:
  "unreadCount
     (deleteNotification True (notifications state_example) 1
        (markAsRead True (\<lambda>_. ''2024-01-02T09:00:00.000Z'') 1 state_example)) = 0 \<and>
   map is_read
     (notifications (markAsRead True (\<lambda>_. ''2024-01-02T09:00:00.000Z'') 1 state_example)) =
     [True, True, False]"
  by (simp add: deleteNotification_def markAsRead_def state_example_def notif_example_def
        mark_read_at_def)

text \<open>
  Claim C6. \<^verbatim>\<open>markAsRead\<close> run a second time on notification 1, which the first run
  has already marked read: the unread count goes from 1 to 0 although notification 3 is
  still unread, and \<^verbatim>\<open>read_at\<close> of notification 1 is overwritten with the later time.
  The second call is not a no-op.
\<close>

theorem markAsRead_again_changes_state:
  "map is_read (notifications (markAsRead True (\<lambda>_. ''2024-01-02T09:00:00.000Z'') 1 state_example)) =
     [True, True, False] \<and>
   unreadCount (markAsRead True (\<lambda>_. ''2024-01-02T09:00:00.000Z'') 1 state_example) = 1 \<and>
   map read_at (notifications (markAsRead True (\<lambda>_. ''2024-01-02T09:00:00.000Z'') 1 state_example)) =
     [Some ''2024-01-02T09:00:00.000Z'', Some ''2024-01-01T11:00:00.000Z'', None] \<and>
   unreadCount (markAsRead True (\<lambda>_. ''2024-01-02T09:05:00.000Z'') 1
                  (markAsRead True (\<lambda>_. ''2024-01-02T09:00:00.000Z'') 1 state_example)) = 0 \<and>
   map read_at (notifications (markAsRead True (\<lambda>_. ''2024-01-02T09:05:00.000Z'') 1
                  (markAsRead True (\<lambda>_. ''2024-01-02T09:00:00.000Z'') 1 state_example))) =
     [Some ''2024-01-02T09:05:00.000Z'', Some ''2024-01-01T11:00:00.000Z'', None]"
  by (simp add: markAsRead_def state_example_def notif_example_def mark_read_at_def)

text \<open>
  Claim C7. After any sequence of \<^verbatim>\<open>markAsRead\<close>, \<^verbatim>\<open>markAllAsRead\<close>,
  \<^verbatim>\<open>deleteNotification\<close> and \<^verbatim>\<open>deleteAllNotifications\<close>, whether their REST calls
  succeed or fail, the notification list is, element by element and in order, what is
  left of a subsequence of the initial list: each remaining notification is its
  original up to \<^verbatim>\<open>is_read\<close> and \<^verbatim>\<open>read_at\<close>, and is read if its original was read.
  No operation takes \<^verbatim>\<open>is_read\<close> from true back to false.
\<close>

theorem read_is_one_way:
  "\<exists>kept. subseq kept (notifications s) \<and>
          list_all2 keeps_read kept (notifications (notif_run s ops))"
  unfolding notif_run_def
proof (induction ops arbitrary: s)
  case Nil
  show ?case
    by (intro exI [of _ "notifications s"]) (simp add: list_all2_same keeps_read_refl)
next
  case (Cons op ops)
  obtain k1 where k1: "subseq k1 (notifications s)"
    and r1: "list_all2 keeps_read k1 (notifications (notif_step s op))"
    using notif_step_kept by blast
  obtain k2 where k2: "subseq k2 (notifications (notif_step s op))"
    and r2: "list_all2 keeps_read k2 (notifications (foldl notif_step (notif_step s op) ops))"
    using Cons.IH by blast
  from list_all2_subseq_pull [OF k2 r1] obtain k where k: "subseq k k1"
    and r: "list_all2 keeps_read k k2" by blast
  have "list_all2 keeps_read k (notifications (foldl notif_step (notif_step s op) ops))"
    using list_all2_trans [of keeps_read keeps_read keeps_read, OF _ r r2] keeps_read_trans
    by blast
  moreover from k k1 have "subseq k (notifications s)"
    by (rule subseq_order.trans)
  ultimately show ?case by auto
qed

text \<open>
  Marking notification 1 and deleting notification 3 leaves two notifications, both
  read; the second is notification 2, read from the start and untouched.
\<close>

theorem read_is_one_way_witness:
  "is_read (notif_example 2 True) \<and>
   notifications (notif_run state_example
      [MarkAsRead True (\<lambda>_. ''2024-01-02T09:00:00.000Z'') 1,
       DeleteNotification True (notifications state_example) 3]) =
     [mark_read_at ''2024-01-02T09:00:00.000Z'' (notif_example 1 False), notif_example 2 True] \<and>
   (\<exists>kept. subseq kept (notifications state_example) \<and>
      list_all2 keeps_read kept
        [mark_read_at ''2024-01-02T09:00:00.000Z'' (notif_example 1 False), notif_example 2 True])"
proof -
  have e: "notifications (notif_run state_example
      [MarkAsRead True (\<lambda>_. ''2024-01-02T09:00:00.000Z'') 1,
       DeleteNotification True (notifications state_example) 3]) =
     [mark_read_at ''2024-01-02T09:00:00.000Z'' (notif_example 1 False), notif_example 2 True]"
    by (simp add: notif_run_def markAsRead_def deleteNotification_def state_example_def
          notif_example_def mark_read_at_def)
  have r: "is_read (notif_example 2 True)"
    by (simp add: notif_example_def)
  from read_is_one_way
         [of state_example
             "[MarkAsRead True (\<lambda>_. ''2024-01-02T09:00:00.000Z'') 1,
               DeleteNotification True (notifications state_example) 3]"]
  have "\<exists>kept. subseq kept (notifications state_example) \<and>
      list_all2 keeps_read kept
        [mark_read_at ''2024-01-02T09:00:00.000Z'' (notif_example 1 False), notif_example 2 True]"
    unfolding e .
  with e r show ?thesis by blast
qed

text \<open>
  Claim C9. From a state whose cached unread count is not negative, no sequence of
  \<^verbatim>\<open>markAsRead\<close>, \<^verbatim>\<open>markAllAsRead\<close>, \<^verbatim>\<open>deleteNotification\<close> and
  \<^verbatim>\<open>deleteAllNotifications\<close> leads to a negative unread count.
\<close>

theorem unreadCount_never_negative:
  "0 \<le> unreadCount s \<Longrightarrow> 0 \<le> unreadCount (notif_run s ops)"
  unfolding notif_run_def
  by (induction ops arbitrary: s) (simp_all add: notif_step_unread_nonneg)

text \<open>Three \<^verbatim>\<open>markAsRead\<close> calls on a count of 2 stop at 0.\<close>

theorem unreadCount_never_negative_witness:
  "0 \<le> unreadCount state_example \<and>
   unreadCount (notif_run state_example
      [MarkAsRead True (\<lambda>_. ''2024-01-02T09:00:00.000Z'') 1,
       MarkAsRead True (\<lambda>_. ''2024-01-02T09:00:00.000Z'') 2,
       MarkAsRead True (\<lambda>_. ''2024-01-02T09:00:00.000Z'') 3]) = 0 \<and>
   0 \<le> unreadCount (notif_run state_example
      [MarkAsRead True (\<lambda>_. ''2024-01-02T09:00:00.000Z'') 1,
       MarkAsRead True (\<lambda>_. ''2024-01-02T09:00:00.000Z'') 2,
       MarkAsRead True (\<lambda>_. ''2024-01-02T09:00:00.000Z'') 3])"
proof -
  have h: "0 \<le> unreadCount state_example"
    by (simp add: state_example_def)
  have e: "unreadCount (notif_run state_example
      [MarkAsRead True (\<lambda>_. ''2024-01-02T09:00:00.000Z'') 1,
       MarkAsRead True (\<lambda>_. ''2024-01-02T09:00:00.000Z'') 2,
       MarkAsRead True (\<lambda>_. ''2024-01-02T09:00:00.000Z'') 3]) = 0"
    by (simp add: notif_run_def markAsRead_def state_example_def)
  from h e unreadCount_never_negative [OF h] show ?thesis by blast
qed

section \<open>Attendance capture: proofs\<close>

lemma posted_add_face [simp]: "posted (add_face f b s) = posted s"
  by (simp add: add_face_def)

lemma markAttendance_keeps_session [simp]:
  "selectedCourse (markAttendance env t uid conf s) = selectedCourse s"
  "sessionStartTime (markAttendance env t uid conf s) = sessionStartTime s"
  by (simp_all add: markAttendance_def Let_def split: option.splits)

lemma captureAndProcess_keeps_session:
  "selectedCourse (captureAndProcess env inp s) = selectedCourse s"
  "sessionStartTime (captureAndProcess env inp s) = sessionStartTime s"
  by (simp_all add: captureAndProcess_def add_face_def split: verify_result.splits option.splits)

lemma posted_markAttendance:
  "selectedCourse s = Some c \<Longrightarrow> sessionStartTime s = Some start \<Longrightarrow>
   posted (markAttendance env t uid conf s) =
     posted s @
     [\<lparr>user_id = uid, course_id = toString env (id_course c), course_name = name_course c,
       course_code = code c, instructor_id_att = instructor env, session_start = start,
       session_end = setMinutes_plus1 env t, status = Present, confidence = conf,
       face_data = [], location = ''Classroom'', device_info = userAgent env\<rparr>]"
  by (simp add: markAttendance_def Let_def)

lemma captureAndProcess_enrolled:
  "recognises inp r u \<Longrightarrow> isEnrolled (selectedCourse s) u \<Longrightarrow>
   captureAndProcess env inp s =
     add_face
       \<lparr>id_face = toString env (id_user u), name_face = name_user u,
        confidence_face = confidence_or_0 (confidence_found r),
        timestamp = clock_face inp, status_face = Recognized\<rparr>
       True
       (markAttendance env (clock_mark inp) (id_user u) (confidence_or_0 (confidence_found r)) s)"
  by (simp add: captureAndProcess_def recognises_def)

lemma posted_markAttendance_new:
  "p \<in> set (posted (markAttendance env t uid conf s)) \<Longrightarrow>
   p \<in> set (posted s) \<or> status p = Present"
  by (auto simp: markAttendance_def Let_def split: option.splits)

lemma posted_captureAndProcess_new:
  "p \<in> set (posted (captureAndProcess env inp s)) \<Longrightarrow>
   p \<in> set (posted s) \<or> status p = Present"
  by (auto simp: captureAndProcess_def dest: posted_markAttendance_new
        split: verify_result.splits option.splits if_splits)

lemma decimal_string_101: "decimal_string 101 = ''101''"
  by code_simp

text \<open>In a zone whose offset never changes, the session end is the capture plus one minute.\<close>

lemma setMinutes_plus1_utc: "setMinutes_plus1 env_example t = t + 60000"
  by (simp add: setMinutes_plus1_def env_example_def)

text \<open>
  In New York in the night daylight saving time ends: a capture at 01:59:30 EDT gets a
  session end 61 minutes later, and captures at 01:30 EDT and, an hour later, at 01:30
  EST get the same session end 01:31 EDT.
\<close>

lemma setMinutes_plus1_new_york:
  "setMinutes_plus1 env_new_york 1730613570000 = 1730617230000"
  "setMinutes_plus1 env_new_york 1730611800000 = 1730611860000"
  "setMinutes_plus1 env_new_york 1730615400000 = 1730611860000"
  by (simp_all add: setMinutes_plus1_def env_new_york_def)

lemma recognises_capture_of:
  "recognises (capture_of u conf t)
     \<lparr>match = True, user_found = Some u, confidence_found = Some conf\<rparr> u"
  by (simp add: recognises_def capture_of_def)

lemma alice_enrolled: "isEnrolled (selectedCourse capture_example) alice"
  by (simp add: isEnrolled_def capture_example_def c101_def alice_def)

text \<open>
  Claim C1. When the verifier returns a match for a user who is not among the
  \<^verbatim>\<open>enrolled_students\<close> of the selected course (or no course is selected), whatever
  confidence it reports: \<^verbatim>\<open>captureAndProcess\<close> posts no attendance request, and a
  capture that got as far as the verifier is listed as an unknown face named
  ``Not enrolled in this course'' and counted as unknown, not as recognized or present.
\<close>

theorem not_enrolled_never_marked:
  assumes "verify inp = VerifyReturns r" and "match r" and "user_found r = Some u"
    and "\<not> isEnrolled (selectedCourse s) u"
  shows "posted (captureAndProcess env inp s) = posted s \<and>
         (refs_present inp \<and> context_present inp \<and> blob_present inp \<longrightarrow>
            detectedFaces (captureAndProcess env inp s) =
              detectedFaces s @
              [\<lparr>id_face = ''unknown'', name_face = ''Not enrolled in this course'',
                confidence_face = confidence_or_0 (confidence_found r),
                timestamp = clock_face inp, status_face = Unknown\<rparr>] \<and>
            unknown (sessionStats (captureAndProcess env inp s)) = unknown (sessionStats s) + 1 \<and>
            recognized (sessionStats (captureAndProcess env inp s)) = recognized (sessionStats s) \<and>
            presentStudents (sessionStats (captureAndProcess env inp s)) =
              presentStudents (sessionStats s))"
  using assms by (simp add: captureAndProcess_def add_face_def)

text \<open>Mallory is matched with confidence 0.99 but is not enrolled in C101: nothing is posted.\<close>

theorem not_enrolled_never_marked_witness:
  "\<not> isEnrolled (selectedCourse capture_example) mallory \<and>
   posted (captureAndProcess env_example (capture_of mallory (99/100) 180000) capture_example) = [] \<and>
   map name_face (detectedFaces
     (captureAndProcess env_example (capture_of mallory (99/100) 180000) capture_example)) =
     [''Not enrolled in this course'']"
proof -
  have a: "verify (capture_of mallory (99/100) 180000) =
             VerifyReturns \<lparr>match = True, user_found = Some mallory, confidence_found = Some (99/100)\<rparr>"
    by (simp add: capture_of_def)
  have b: "\<not> isEnrolled (selectedCourse capture_example) mallory"
    by (simp add: isEnrolled_def capture_example_def c101_def alice_def bob_def mallory_def)
  show ?thesis
    using b not_enrolled_never_marked [OF a _ _ b, of env_example]
    by (simp add: capture_example_def capture_of_def)
qed

text \<open>
  Claim C3, as stated, fails. In the specification's scenario (window from 10:00 to
  10:30, grace offset 5 minutes, threshold 0.8, times in milliseconds after 10:00) a
  capture of the enrolled student at 10:12 with confidence 0.92 is \<open>Late\<close> by the
  specification's rule, and the client posts \<open>Present\<close>.
\<close>

theorem status_derivation_counterexample:
  "map status (posted (captureAndProcess env_example (capture_of alice (23/25) 720000)
                         capture_example)) = [Present] \<and>
   spec_status (4/5) 300000 0 1800000 720000 (23/25) = Some Late"
  by (simp add: captureAndProcess_def capture_of_def capture_example_def isEnrolled_def
        c101_def alice_def markAttendance_def add_face_def spec_status_def)

text \<open>
  Claim C3, amended. For every successful capture (a face matched to a student
  enrolled in the selected course while a session is running) the status the client
  records is \<open>Present\<close>, whatever the confidence and the capture time: the capture posts
  exactly one attendance request, with status \<open>Present\<close>. No capture posts a request
  with another status: \<open>Late\<close> is never posted.
\<close>

theorem successful_capture_posts_present:
  "(recognises inp r u \<and> isEnrolled (selectedCourse s) u \<and> sessionStartTime s = Some start
      \<longrightarrow> (\<exists>p. posted (captureAndProcess env inp s) = posted s @ [p] \<and> status p = Present)) \<and>
   (\<forall>p \<in> set (posted (captureAndProcess env inp s)). p \<in> set (posted s) \<or> status p = Present)"
proof -
  have "\<exists>p. posted (captureAndProcess env inp s) = posted s @ [p] \<and> status p = Present"
    if "recognises inp r u" and "isEnrolled (selectedCourse s) u"
      and "sessionStartTime s = Some start"
  proof -
    from that(2) obtain c where "selectedCourse s = Some c"
      by (cases "selectedCourse s") (simp_all add: isEnrolled_def)
    with that show ?thesis
      by (simp add: captureAndProcess_enrolled posted_markAttendance)
  qed
  then show ?thesis
    using posted_captureAndProcess_new by blast
qed

text \<open>Alice, captured 12 minutes into the session with confidence 0.1, is posted as present.\<close>

theorem successful_capture_posts_present_witness:
  "recognises (capture_of alice (1/10) 720000)
     \<lparr>match = True, user_found = Some alice, confidence_found = Some (1/10)\<rparr> alice \<and>
   isEnrolled (selectedCourse capture_example) alice \<and>
   sessionStartTime capture_example = Some 0 \<and>
   map status (posted (captureAndProcess env_example (capture_of alice (1/10) 720000)
                         capture_example)) = [Present]"
proof -
  have d: "sessionStartTime capture_example = Some 0"
    and p: "posted capture_example = []"
    by (simp_all add: capture_example_def)
  from successful_capture_posts_present
         [of "capture_of alice (1/10) 720000"
             "\<lparr>match = True, user_found = Some alice, confidence_found = Some (1/10)\<rparr>"
             alice capture_example 0 env_example]
    recognises_capture_of [of alice "1/10" 720000] alice_enrolled d
  obtain q where
    "posted (captureAndProcess env_example (capture_of alice (1/10) 720000) capture_example) =
       posted capture_example @ [q]" and "status q = Present"
    by blast
  with p have "map status (posted (captureAndProcess env_example (capture_of alice (1/10) 720000)
                         capture_example)) = [Present]"
    by simp
  with recognises_capture_of [of alice "1/10" 720000] alice_enrolled d show ?thesis
    by blast
qed

text \<open>
  Claim C4, as stated, fails. Two captures of Alice in one capture session, 3 and 20
  minutes after its start (browser in UTC), post two requests, and their session
  windows differ: each ends one minute after its own capture.
\<close>

theorem dedup_key_counterexample:
  "map dedup_key
     (posted (captureAndProcess env_example (capture_of alice (23/25) 1200000)
                (captureAndProcess env_example (capture_of alice (23/25) 180000)
                   capture_example))) =
     [(7, ''101'', 0, 240000), (7, ''101'', 0, 1260000)]"
proof -
  have "toString env_example 101 = ''101''"
    by (simp add: env_example_def decimal_string_101)
  then show ?thesis
    by (simp add: captureAndProcess_def capture_of_def capture_example_def isEnrolled_def
          c101_def alice_def markAttendance_def add_face_def dedup_key_def
          setMinutes_plus1_utc)
qed

text \<open>
  Claim C4, amended. The client does not deduplicate: two captures of the same enrolled
  student in one capture session post two attendance requests. The two requests carry
  the same student, the same course and the same session start; each session end is
  what \<^verbatim>\<open>setMinutes(getMinutes() + 1)\<close> makes of that capture's own clock reading, so
  the two (student, course, session window) keys are identical exactly when those two
  computed session ends are equal, and captures at different times submit different
  keys in general.
\<close>

theorem repeated_capture_keys:
  assumes "recognises inp1 r1 u" and "recognises inp2 r2 u"
    and "isEnrolled (selectedCourse s) u"
    and "selectedCourse s = Some c" and "sessionStartTime s = Some start"
  shows "\<exists>p1 p2.
           posted (captureAndProcess env inp2 (captureAndProcess env inp1 s)) = posted s @ [p1, p2] \<and>
           user_id p1 = id_user u \<and> user_id p2 = id_user u \<and>
           course_id p1 = course_id p2 \<and>
           session_start p1 = start \<and> session_start p2 = start \<and>
           session_end p1 = setMinutes_plus1 env (clock_mark inp1) \<and>
           session_end p2 = setMinutes_plus1 env (clock_mark inp2) \<and>
           (dedup_key p1 = dedup_key p2) =
             (setMinutes_plus1 env (clock_mark inp1) = setMinutes_plus1 env (clock_mark inp2))"
proof -
  let ?s1 = "captureAndProcess env inp1 s"
  let ?p = "\<lambda>t conf. \<lparr>user_id = id_user u, course_id = toString env (id_course c),
             course_name = name_course c, course_code = code c,
             instructor_id_att = instructor env, session_start = start,
             session_end = setMinutes_plus1 env t, status = Present,
             confidence = conf, face_data = [],
             location = ''Classroom'', device_info = userAgent env\<rparr>"
  have s1: "selectedCourse ?s1 = Some c" "sessionStartTime ?s1 = Some start"
    "isEnrolled (selectedCourse ?s1) u"
    using assms by (simp_all add: captureAndProcess_keeps_session)
  have p1: "posted ?s1 = posted s @ [?p (clock_mark inp1) (confidence_or_0 (confidence_found r1))]"
    using assms by (simp add: captureAndProcess_enrolled posted_markAttendance)
  have p2: "posted (captureAndProcess env inp2 ?s1) =
              posted ?s1 @ [?p (clock_mark inp2) (confidence_or_0 (confidence_found r2))]"
    using assms(2) s1 by (simp add: captureAndProcess_enrolled posted_markAttendance)
  show ?thesis
    unfolding p2 p1 by (simp add: dedup_key_def)
qed

text \<open>
  New York, the night daylight saving time ends: Alice is captured at 01:30 EDT and
  again an hour later at 01:30 EST. Both requests get the session end 01:31 EDT, so the
  two keys are identical; the client still posts both.
\<close>

theorem repeated_capture_keys_witness:
  "recognises (capture_of alice (23/25) 1730611800000)
     \<lparr>match = True, user_found = Some alice, confidence_found = Some (23/25)\<rparr> alice \<and>
   recognises (capture_of alice (9/10) 1730615400000)
     \<lparr>match = True, user_found = Some alice, confidence_found = Some (9/10)\<rparr> alice \<and>
   isEnrolled (selectedCourse capture_example) alice \<and>
   selectedCourse capture_example = Some c101 \<and>
   sessionStartTime capture_example = Some 0 \<and>
   (\<exists>p1 p2.
      posted (captureAndProcess env_new_york (capture_of alice (9/10) 1730615400000)
                (captureAndProcess env_new_york (capture_of alice (23/25) 1730611800000)
                   capture_example)) = [p1, p2] \<and>
      session_end p1 = 1730611860000 \<and> session_end p2 = 1730611860000 \<and>
      dedup_key p1 = dedup_key p2)"
proof -
  have c: "selectedCourse capture_example = Some c101"
    and d: "sessionStartTime capture_example = Some 0"
    by (simp_all add: capture_example_def)
  have p: "posted capture_example = []"
    by (simp add: capture_example_def)
  have t: "clock_mark (capture_of alice (23/25) 1730611800000) = 1730611800000"
    "clock_mark (capture_of alice (9/10) 1730615400000) = 1730615400000"
    by (simp_all add: capture_of_def)
  from repeated_capture_keys
         [OF recognises_capture_of [of alice "23/25" 1730611800000]
             recognises_capture_of [of alice "9/10" 1730615400000] alice_enrolled c d,
          where env = env_new_york]
  have "\<exists>p1 p2.
      posted (captureAndProcess env_new_york (capture_of alice (9/10) 1730615400000)
                (captureAndProcess env_new_york (capture_of alice (23/25) 1730611800000)
                   capture_example)) = [p1, p2] \<and>
      session_end p1 = 1730611860000 \<and> session_end p2 = 1730611860000 \<and>
      dedup_key p1 = dedup_key p2"
    unfolding t p setMinutes_plus1_new_york by auto
  with recognises_capture_of alice_enrolled c d show ?thesis by blast
qed

section \<open>Enrollment capacity: proofs\<close>

lemma courses_enroll: "enroll sid cid L = Inr L' \<Longrightarrow> courses L' = courses L"
  by (auto simp: enroll_def split: option.splits if_splits)

lemma courses_unenroll: "unenroll sid cid L = Inr L' \<Longrightarrow> courses L' = courses L"
  by (auto simp: unenroll_def split: if_splits)

lemma courses_ledger_step [simp]: "courses (ledger_step L a) = courses L"
  by (cases a) (auto split: sum.splits dest: courses_enroll courses_unenroll)

lemma courses_ledger_run [simp]: "courses (ledger_run L acts) = courses L"
  unfolding ledger_run_def by (induction acts arbitrary: L) simp_all

lemma enrolled_count_enroll:
  "enroll sid cid L = Inr L' \<Longrightarrow>
   enrolled_count L' k = (if k = cid then Suc (enrolled_count L k) else enrolled_count L k)"
  by (auto simp: enroll_def enrolled_count_def split: option.splits if_splits)

lemma length_filter_deactivate:
  "length (filter (\<lambda>e. enr_course e = k \<and> enr_active e)
            (map (\<lambda>e. if P e then e\<lparr>enr_active := False\<rparr> else e) xs))
   \<le> length (filter (\<lambda>e. enr_course e = k \<and> enr_active e) xs)"
  by (induction xs) auto

lemma enrolled_count_unenroll:
  assumes "unenroll sid cid L = Inr L'"
  shows "enrolled_count L' k \<le> enrolled_count L k"
proof -
  from assms have e: "enrollments L' =
      map (\<lambda>e. if active_pair sid cid e then e\<lparr>enr_active := False\<rparr> else e) (enrollments L)"
    by (auto simp: unenroll_def split: if_splits)
  show ?thesis
    unfolding enrolled_count_def e by (rule length_filter_deactivate)
qed

lemma enroll_full:
  "map_of (courses L) cid = Some c \<Longrightarrow> row_max_students c \<le> int (enrolled_count L cid) \<Longrightarrow>
   enroll sid cid L = Inl CapacityExceeded"
  by (simp add: enroll_def)

lemma enroll_room:
  "enroll sid cid L = Inr L' \<Longrightarrow>
   \<exists>c. map_of (courses L) cid = Some c \<and> int (enrolled_count L cid) < row_max_students c"
  by (auto simp: enroll_def split: option.splits if_splits)

text \<open>The invariant holds course by course: a step on one course leaves the others alone.\<close>

lemma within_capacity_step:
  assumes "within_capacity L k"
  shows "within_capacity (ledger_step L a) k"
proof (cases a)
  case (Enroll sid cid)
  show ?thesis
  proof (cases "enroll sid cid L")
    case (Inl e)
    with Enroll assms show ?thesis by simp
  next
    case (Inr L')
    from enroll_room [OF Inr] obtain c where c: "map_of (courses L) cid = Some c"
      and room: "int (enrolled_count L cid) < row_max_students c" by blast
    have "within_capacity L' k"
      using assms c room courses_enroll [OF Inr] enrolled_count_enroll [OF Inr, of k]
      by (auto simp: within_capacity_def split: option.splits)
    with Enroll Inr show ?thesis by simp
  qed
next
  case (Unenroll sid cid)
  show ?thesis
  proof (cases "unenroll sid cid L")
    case (Inl e)
    with Unenroll assms show ?thesis by simp
  next
    case (Inr L')
    have "within_capacity L' k"
      using assms courses_unenroll [OF Inr] enrolled_count_unenroll [OF Inr, of k]
      by (auto simp: within_capacity_def split: option.splits)
    with Unenroll Inr show ?thesis by simp
  qed
qed

lemma within_capacity_run: "within_capacity L k \<Longrightarrow> within_capacity (ledger_run L acts) k"
  unfolding ledger_run_def
  by (induction acts arbitrary: L) (simp_all add: within_capacity_step)

lemma capacity_ok_run: "capacity_ok L \<Longrightarrow> capacity_ok (ledger_run L acts)"
  by (simp add: capacity_ok_def list_all_iff within_capacity_run)

lemma capacity_ok_course:
  assumes "capacity_ok L" and "map_of (courses L) k = Some c"
  shows "int (enrolled_count L k) \<le> row_max_students c"
proof -
  from assms(2) have "k \<in> fst ` set (courses L)"
    by (metis domI dom_map_of_conv_image_fst)
  with assms(1) have "within_capacity L k"
    by (auto simp: capacity_ok_def list_all_iff)
  with assms(2) show ?thesis by (simp add: within_capacity_def)
qed

lemma ledger_full_eq:
  "ledger_full =
     \<lparr>courses = [(101, \<lparr>row_max_students = 2, row_is_active = True\<rparr>)],
      enrollments = [\<lparr>enr_student = 1, enr_course = 101, enr_active = True\<rparr>,
                     \<lparr>enr_student = 2, enr_course = 101, enr_active = True\<rparr>],
      emitted = [(1, ''enrolled''), (2, ''enrolled'')]\<rparr>"
  by (simp add: ledger_full_def ledger_run_def ledger_example_def enroll_def
        enrolled_count_def active_pair_def)

text \<open>
  Claim C2, as stated, fails for the student's self-enroll button. The student dashboard
  draws the button from the \<^verbatim>\<open>can_enroll\<close> flag of the response and compares no counts:
  for a course row with no student enrolled, 10 places, and \<^verbatim>\<open>can_enroll\<close> false (an
  inactive course) the button is disabled and reads ``Full'' although the capacity is
  not reached.
\<close>

theorem full_caption_counterexample:
  "caption (studentCourseButton dashboard_example) = ''Full'' \<and>
   disabled (studentCourseButton dashboard_example) \<and>
   enrolled_count_dc dashboard_example = 0 \<and>
   max_students_dc dashboard_example = 10 \<and>
   available_spots dashboard_example = 10"
  by (simp add: studentCourseButton_def dashboard_example_def)

text \<open>
  Claim C2, amended. In the ledger, \<open>enroll\<close> is refused with \<open>CapacityExceeded\<close>
  whenever the course's active enrollment count has reached \<open>max_students\<close>; hence from
  a ledger within capacity, every sequence of enroll and unenroll calls leaves each
  course's count at most its \<open>max_students\<close>. In the client, the admin's ``Enroll
  Student'' button of the selected course is disabled exactly when
  \<^verbatim>\<open>enrolled_students.length >= max_students\<close>; the student's self-enroll button, shown for
  a course the student is not enrolled in, is disabled and reads ``Full'' exactly when
  the \<^verbatim>\<open>can_enroll\<close> flag sent by the backend is false.
\<close>

theorem capacity_enforced:
  "(map_of (courses L) cid = Some c \<and> row_max_students c \<le> int (enrolled_count L cid)
      \<longrightarrow> enroll sid cid L = Inl CapacityExceeded) \<and>
   (capacity_ok L \<and> map_of (courses L) cid = Some c
      \<longrightarrow> int (enrolled_count (ledger_run L acts) cid) \<le> row_max_students c) \<and>
   disabled (adminEnrollButton k) = (max_students k \<le> int (length (enrolled_students k))) \<and>
   (\<not> is_enrolled_dc d \<longrightarrow>
      (caption (studentCourseButton d) = ''Full'') = (\<not> can_enroll d) \<and>
      disabled (studentCourseButton d) = (\<not> can_enroll d))"
proof -
  have "int (enrolled_count (ledger_run L acts) cid) \<le> row_max_students c"
    if "capacity_ok L" and "map_of (courses L) cid = Some c"
    using capacity_ok_course [of "ledger_run L acts" cid c] capacity_ok_run [OF that(1)] that(2)
    by simp
  then show ?thesis
    by (simp add: enroll_full adminEnrollButton_def studentCourseButton_def)
qed

text \<open>
  The specification's scenario: a course of capacity 2 with two students enrolled
  refuses a third; after the first student unenrolls the third gets in, and the count
  is 2 again. The admin button of the full course C101 is disabled.
\<close>

theorem capacity_enforced_witness:
  "map_of (courses ledger_full) 101 = Some \<lparr>row_max_students = 2, row_is_active = True\<rparr> \<and>
   2 \<le> int (enrolled_count ledger_full 101) \<and>
   capacity_ok ledger_full \<and>
   \<not> is_enrolled_dc dashboard_example \<and>
   enroll 3 101 ledger_full = Inl CapacityExceeded \<and>
   enrolled_count (ledger_run ledger_full [Enroll 3 101, Unenroll 1 101, Enroll 3 101]) 101 = 2 \<and>
   int (enrolled_count (ledger_run ledger_full [Enroll 3 101, Unenroll 1 101, Enroll 3 101]) 101)
     \<le> 2 \<and>
   disabled (adminEnrollButton c101) \<and>
   caption (studentCourseButton dashboard_example) = ''Full''"
proof -
  have a: "map_of (courses ledger_full) 101 = Some \<lparr>row_max_students = 2, row_is_active = True\<rparr>"
    by (simp add: ledger_full_eq)
  have b: "2 \<le> int (enrolled_count ledger_full 101)"
    by (simp add: ledger_full_eq enrolled_count_def)
  have c: "capacity_ok ledger_full"
    by (simp add: ledger_full_eq capacity_ok_def within_capacity_def enrolled_count_def)
  have d: "\<not> is_enrolled_dc dashboard_example" "\<not> can_enroll dashboard_example"
    by (simp_all add: dashboard_example_def)
  have e: "enrolled_count (ledger_run ledger_full [Enroll 3 101, Unenroll 1 101, Enroll 3 101]) 101 = 2"
    by (simp add: ledger_full_eq ledger_run_def enroll_def unenroll_def enrolled_count_def
          active_pair_def)
  have f: "max_students c101 \<le> int (length (enrolled_students c101))"
    by (simp add: c101_def)
  show ?thesis
    using a b c d e f
      capacity_enforced [of ledger_full 101 "\<lparr>row_max_students = 2, row_is_active = True\<rparr>" 3
                            "[Enroll 3 101, Unenroll 1 101, Enroll 3 101]" c101 dashboard_example]
    by simp
qed

section \<open>Attendance rate: proofs\<close>

text \<open>
  Claim C8. \<open>attendanceRate\<close> is the present count divided by the session count when
  there are sessions, and 0 when there are none; it never ends in the division-by-zero
  error. Without statistics the student dashboard prints ``0%''.
\<close>

theorem attendanceRate_defined:
  "attendanceRate p 0 = Inr 0 \<and>
   (0 < t \<longrightarrow> attendanceRate p t = Inr (of_nat p / of_nat t)) \<and>
   attendanceRate p t \<noteq> Inl DivisionByZero \<and>
   attendanceRateText toFixed1 None = ''0%''"
  by (simp add: attendanceRate_def divide_checked_def attendanceRateText_def)

text \<open>Three sessions attended out of four.\<close>

theorem attendanceRate_defined_witness:
  "(0::nat) < 4 \<and> attendanceRate 3 4 = Inr (3 / 4) \<and> attendanceRate 3 0 = Inr 0"
  using attendanceRate_defined [of 3 4] by simp

section \<open>Session restore: proofs\<close>

text \<open>
  The restore effect itself always returns: the only call that can throw is inside the
  \<^verbatim>\<open>try\<close>. A stored string that does not parse is removed, and the auth page is shown.
\<close>

lemma restoreSession_total: "\<exists>a'. restoreSession parse a = Inr a'"
  by (simp add: restoreSession_def split: option.splits)

lemma restoreSession_invalid:
  assumes "localStorage a ''smartfacetrack_user'' = Some stored" and "stored \<noteq> []"
    and "parse stored = None"
  shows "restoreSession parse a =
           Inr (a\<lparr>localStorage := (localStorage a)(''smartfacetrack_user'' := None)\<rparr>)"
  using assms by (simp add: restoreSession_def)

lemma App_start_invalid:
  assumes "localStorage a ''smartfacetrack_user'' = Some stored" and "stored \<noteq> []"
    and "parse stored = None" and "user_state a = JNull"
  shows "App_start parse a =
           Inr (AuthPage, a\<lparr>localStorage := (localStorage a)(''smartfacetrack_user'' := None)\<rparr>)"
  using assms by (simp add: App_start_def restoreSession_invalid App_render_def)

lemma App_start_not_json:
  "App_start parse_example (app_with ''not json'') =
     Inr (AuthPage, \<lparr>user_state = JNull, localStorage = Map.empty\<rparr>)"
  by (simp add: App_start_def restoreSession_def parse_example_def app_with_def App_render_def)

text \<open>
  Claim C10. With the string \<^verbatim>\<open>{}\<close> stored under \<^verbatim>\<open>smartfacetrack_user\<close>,
  \<^verbatim>\<open>JSON.parse\<close> succeeds, the empty object becomes the user, and \<^verbatim>\<open>App\<close> throws a
  \<^verbatim>\<open>TypeError\<close> when it renders \<^verbatim>\<open>user.name.charAt(0)\<close>: the \<^verbatim>\<open>catch\<close> covers strings
  that do not parse, not strings that parse to something that is not a user.
\<close>

theorem App_start_malformed_user:
  "App_start parse_example (app_with ''{}'') = Inl TypeError"
  by (simp add: App_start_def restoreSession_def parse_example_def app_with_def App_render_def)

end
